theory Spec2Isabelle
  imports Main "HOL-Library.Word"
begin

unbundle bit_operations_syntax

section \<open>Bytes, Python exceptions and integer conversions\<close>

text \<open>
  A Python \<^verbatim>\<open>bytes\<close> or \<^verbatim>\<open>bytearray\<close> value is a list of 8-bit words. Python integers
  are unbounded, so every integer field, length and opcode is an \<^typ>\<open>int\<close>. An exception
  is the left summand of a result.
\<close>

type_synonym byte = "8 word"
type_synonym bytes = "byte list"

datatype error =
    InvalidOpcode
  | InvalidLen
  | ValueError
  | OverflowError
  | AssertionError
  | AttributeError

text \<open>Sequencing of calls that may raise: the first exception ends the computation.\<close>

definition and_then :: "error + 'a \<Rightarrow> ('a \<Rightarrow> error + 'b) \<Rightarrow> error + 'b" where
  "and_then m f = (case m of Inl e \<Rightarrow> Inl e | Inr x \<Rightarrow> f x)"

text \<open>\<^verbatim>\<open>int.from_bytes(b, byteorder='little', signed=False)\<close>; the empty string gives 0.\<close>

fun from_bytes :: "bytes \<Rightarrow> int" where
  "from_bytes [] = 0"
| "from_bytes (b # bs) = uint b + 256 * from_bytes bs"

text \<open>
  \<^verbatim>\<open>x.to_bytes(n, byteorder='little', signed=False)\<close>: the \<open>n\<close> little-endian digits of
  \<open>x\<close>, and OverflowError for a negative \<open>x\<close> or one that does not fit \<open>n\<close> bytes.
\<close>

fun le_digits :: "nat \<Rightarrow> int \<Rightarrow> bytes" where
  "le_digits 0 x = []"
| "le_digits (Suc n) x = word_of_int (x mod 256) # le_digits n (x div 256)"

definition to_bytes :: "int \<Rightarrow> nat \<Rightarrow> error + bytes" where
  "to_bytes x n = (if x < 0 \<or> 256 ^ n \<le> x then Inl OverflowError else Inr (le_digits n x))"

text \<open>Python's slice \<^verbatim>\<open>xs[i:j]\<close> for indices \<open>0 \<le> i\<close> and \<open>0 \<le> j\<close>.\<close>

definition slice :: "nat \<Rightarrow> nat \<Rightarrow> 'a list \<Rightarrow> 'a list" where
  "slice i j xs = drop i (take j xs)"

section \<open>CRC engine (uart\_common\_classes.py, \<^verbatim>\<open>UartAdapter.calculate_crc\<close>)\<close>

text \<open>
  Modelled from the spec: \<^verbatim>\<open>calculate_crc\<close> calls
  \<^verbatim>\<open>crcmod.mkCrcFun(0x18005, rev=False, initCrc=0xFFFF, xorOut=0x0000)\<close>, and crcmod is a
  library outside the repository. The spec (4.1) gives the algorithm: CRC-16 with
  polynomial 0x8005, initial register 0xFFFF, no input or output reflection, no final XOR.
  The register is a 16-bit word; each input byte is XORed into its high byte and the
  register is shifted left eight times, XORing the polynomial in whenever a 1 is shifted out.
\<close>

definition crc16_shift :: "16 word \<Rightarrow> 16 word" where
  "crc16_shift c = (if bit c 15 then push_bit 1 c XOR 0x8005 else push_bit 1 c)"

definition crc16_byte :: "16 word \<Rightarrow> byte \<Rightarrow> 16 word" where
  "crc16_byte c b =
     crc16_shift (crc16_shift (crc16_shift (crc16_shift (crc16_shift (crc16_shift
       (crc16_shift (crc16_shift (c XOR push_bit 8 (ucast b)))))))))"

fun crc16_register :: "16 word \<Rightarrow> bytes \<Rightarrow> 16 word" where
  "crc16_register c [] = c"
| "crc16_register c (b # bs) = crc16_register (crc16_byte c b) bs"

text \<open>
  \<^verbatim>\<open>calculate_crc(bytes_data)\<close> returns the checksum as an int. Its type assertion
  (bytes or bytearray) holds for every byte list.
\<close>

definition calculate_crc :: "bytes \<Rightarrow> int" where
  "calculate_crc bytes_data = uint (crc16_register 0xFFFF bytes_data)"

text \<open>\<^verbatim>\<open>calculate_crc_bytes\<close>: the checksum as two little-endian bytes.\<close>

definition calculate_crc_bytes :: "bytes \<Rightarrow> error + bytes" where
  "calculate_crc_bytes bytes_data = to_bytes (calculate_crc bytes_data) 2"

section \<open>Frame reassembler and send path (\<^verbatim>\<open>UartAdapter\<close>)\<close>

definition UART_PREAMBLE :: bytes where
  "UART_PREAMBLE = [0xAA, 0x55]"

text \<open>
  \<^verbatim>\<open>eat_bytes_until_preamble\<close>. The loop pops bytes off the front of the buffer into
  \<open>orphaned_bytes\<close> while the buffer is not empty and does not start with the preamble.
  \<^verbatim>\<open>pop\<close> exists on a bytearray only: the flag \<open>mutable\<close> says that the argument is a
  bytearray (as in the adapter's run loop); on an immutable \<^verbatim>\<open>bytes\<close> value the first
  iteration of the loop raises AttributeError. The loop returns both buffers.
\<close>

fun eat_loop :: "bool \<Rightarrow> bytes \<Rightarrow> bytes \<Rightarrow> error + (bytes \<times> bytes)" where
  "eat_loop mutable orphaned_bytes [] = Inr (orphaned_bytes, [])"
| "eat_loop mutable orphaned_bytes (b # bs) =
     (if take 2 (b # bs) \<noteq> UART_PREAMBLE
      then (if mutable then eat_loop mutable (orphaned_bytes @ [b]) bs
            else Inl AttributeError)
      else Inr (orphaned_bytes, b # bs))"

text \<open>
  After the loop: when bytes were removed and nothing is left, the removed bytes are
  returned; otherwise the buffer (the message printed about removed bytes is not modelled).
\<close>

definition eat_bytes_until_preamble :: "bool \<Rightarrow> bytes \<Rightarrow> error + bytes" where
  "eat_bytes_until_preamble mutable buffer_data =
     (case eat_loop mutable [] buffer_data of
        Inl e \<Rightarrow> Inl e
      | Inr (orphaned_bytes, buffer_data') \<Rightarrow>
          if length orphaned_bytes > 0
          then (if length buffer_data' = 0 then Inr orphaned_bytes else Inr buffer_data')
          else Inr buffer_data')"

lemma eat_loop_length:
  "eat_loop mutable orphaned bs = Inr (orphaned', bs') \<Longrightarrow>
     length orphaned' + length bs' = length orphaned + length bs"
proof (induction bs arbitrary: orphaned)
  case Nil
  then show ?case by simp
next
  case (Cons b bs)
  show ?case
  proof (cases "take 2 (b # bs) \<noteq> UART_PREAMBLE")
    case True
    with Cons.prems have m: "mutable" and
      r: "eat_loop mutable (orphaned @ [b]) bs = Inr (orphaned', bs')"
      by (auto split: if_splits)
    from Cons.IH [OF r] show ?thesis by simp
  next
    case False
    with Cons.prems show ?thesis by auto
  qed
qed

lemma eat_bytes_until_preamble_length:
  assumes "eat_bytes_until_preamble mutable buffer_data = Inr raw"
  shows "length raw \<le> length buffer_data"
proof (cases "eat_loop mutable [] buffer_data")
  case (Inl e)
  with assms show ?thesis by (simp add: eat_bytes_until_preamble_def)
next
  case (Inr p)
  obtain orphaned bs where p: "p = (orphaned, bs)" by (cases p)
  from Inr p have "length orphaned + length bs = length buffer_data"
    using eat_loop_length [of mutable "[]" buffer_data orphaned bs] by simp
  with assms Inr p show ?thesis
    by (auto simp: eat_bytes_until_preamble_def split: if_splits)
qed

text \<open>
  \<^verbatim>\<open>extract_frames(raw_uart_data)\<close>: the list of extracted frames (LENGTH, OPCODE and
  PAYLOAD, without preamble and CRC) and the remaining data. The recursive call is made
  in the branch where the checksum matched and bytes remain; the other branch returns the
  (empty) frame list and the bytes after the candidate.
\<close>

function extract_frames :: "bool \<Rightarrow> bytes \<Rightarrow> error + (bytes list \<times> bytes)" where
  "extract_frames mutable raw_uart_data =
     (case eat_bytes_until_preamble mutable raw_uart_data of
        Inl e \<Rightarrow> Inl e
      | Inr raw \<Rightarrow>
          if length raw < 6 then Inr ([], raw)
          else
            let data_len = nat (from_bytes (slice 2 3 raw)) in
            if length raw < 6 + data_len then Inr ([], raw)
            else
              let uart_frame = take (4 + data_len + 2) raw;
                  remaining_data = drop (6 + data_len) raw;
                  expected_crc = calculate_crc (slice 2 (4 + data_len) uart_frame);
                  actual_crc = from_bytes (drop (length uart_frame - 2) uart_frame);
                  uart_frame_no_preamble_and_crc = slice 2 (length uart_frame - 2) uart_frame
              in
                if expected_crc = actual_crc
                then (if length remaining_data > 0
                      then (case extract_frames mutable remaining_data of
                              Inl e \<Rightarrow> Inl e
                            | Inr (another_frames, remaining_data') \<Rightarrow>
                                Inr (uart_frame_no_preamble_and_crc # another_frames,
                                     remaining_data'))
                      else Inr ([uart_frame_no_preamble_and_crc], remaining_data))
                else Inr ([], remaining_data))"
  by pat_completeness auto
termination
  by (relation "measure (\<lambda>(mutable, raw_uart_data). length raw_uart_data)")
     (auto dest!: eat_bytes_until_preamble_length)

declare extract_frames.simps [simp del]

text \<open>
  \<^verbatim>\<open>write_uart_frame(uart_frame, send_raw)\<close> puts the frame to send on the outgoing
  queue: the raw bytes, or preamble, frame and checksum bytes. The state is the queue.
\<close>

definition write_uart_frame :: "bytes \<Rightarrow> bool \<Rightarrow> bytes list \<Rightarrow> error + bytes list" where
  "write_uart_frame uart_frame send_raw out_queue =
     (if send_raw then Inr (out_queue @ [uart_frame])
      else and_then (calculate_crc_bytes uart_frame)
             (\<lambda>crc. Inr (out_queue @ [UART_PREAMBLE @ uart_frame @ crc])))"

section \<open>Message types (message\_types.py)\<close>

text \<open>
  The field widths of messages.py and message\_types.py. In Python they are ints used both
  as byte counts and in length arithmetic.
\<close>

abbreviation (input) UART_CMD_LEN :: "'a::numeral" where "UART_CMD_LEN \<equiv> 1"
abbreviation (input) UART_LENGTH_LEN :: "'a::numeral" where "UART_LENGTH_LEN \<equiv> 1"
abbreviation (input) UART_INSTANCE_INDEX_LEN :: "'a::numeral" where "UART_INSTANCE_INDEX_LEN \<equiv> 1"
abbreviation (input) UART_SUB_INDEX_LEN :: "'a::numeral" where "UART_SUB_INDEX_LEN \<equiv> 1"
abbreviation (input) UART_MESH_OPCODE_LEN :: "'a::numeral" where "UART_MESH_OPCODE_LEN \<equiv> 2"
abbreviation (input) UART_PROPERTY_ID_LEN :: "'a::numeral" where "UART_PROPERTY_ID_LEN \<equiv> 2"
abbreviation (input) UART_UUID_LEN :: "'a::numeral" where "UART_UUID_LEN \<equiv> 16"
abbreviation (input) UART_DFU_FIRMWARE_SIZE_LEN :: "'a::numeral" where "UART_DFU_FIRMWARE_SIZE_LEN \<equiv> 4"
abbreviation (input) UART_DFU_FIRMWARE_CRC_LEN :: "'a::numeral" where "UART_DFU_FIRMWARE_CRC_LEN \<equiv> 4"
abbreviation (input) UART_DFU_APP_DATA_LENGTH_LEN :: "'a::numeral" where "UART_DFU_APP_DATA_LENGTH_LEN \<equiv> 1"
abbreviation (input) UART_DFU_STATUS_LEN :: "'a::numeral" where "UART_DFU_STATUS_LEN \<equiv> 1"
abbreviation (input) UART_DFU_SUPPORTED_PAGE_SIZE_LEN :: "'a::numeral" where "UART_DFU_SUPPORTED_PAGE_SIZE_LEN \<equiv> 4"
abbreviation (input) UART_DFU_FIRMWARE_OFFSET_LEN :: "'a::numeral" where "UART_DFU_FIRMWARE_OFFSET_LEN \<equiv> 4"
abbreviation (input) UART_REQUESTED_PAGE_SIZE_LEN :: "'a::numeral" where "UART_REQUESTED_PAGE_SIZE_LEN \<equiv> 4"
abbreviation (input) UART_DFU_DATA_LENGTH_LEN :: "'a::numeral" where "UART_DFU_DATA_LENGTH_LEN \<equiv> 1"
abbreviation (input) UART_DFU_FIRMWARE_SHA256_LEN :: "'a::numeral" where "UART_DFU_FIRMWARE_SHA256_LEN \<equiv> 32"
abbreviation (input) UART_COMPANY_ID_LEN :: "'a::numeral" where "UART_COMPANY_ID_LEN \<equiv> 2"
abbreviation (input) UART_TEST_ID_LEN :: "'a::numeral" where "UART_TEST_ID_LEN \<equiv> 1"
abbreviation (input) UART_MODEL_ID_LEN :: "'a::numeral" where "UART_MODEL_ID_LEN \<equiv> 2"
abbreviation (input) UART_SENSOR_SETUP_SERVER_CONFIG_LEN :: "'a::numeral" where "UART_SENSOR_SETUP_SERVER_CONFIG_LEN \<equiv> 10"

text \<open>
  An \<^verbatim>\<open>IntEnum\<close> is an int; the enumeration is the list of its members' values.
  \<^verbatim>\<open>E.from_bytes(b, byteorder='little')\<close> converts the bytes to an int and calls \<open>E\<close>
  on it, which raises ValueError for a value that is no member.
\<close>

definition ModelID_values :: "int list" where
  "ModelID_values = [0x1001, 0x1003, 0x1008, 0x1302, 0x1311, 0x1100, 0x1101, 0x1300, 0x130F,
                     0x1102, 0x0002, 0x0003]"

abbreviation (input) SensorSetupServerID :: int where "SensorSetupServerID \<equiv> 0x1101"

definition ModemState_values :: "int list" where
  "ModemState_values = [0x00, 0x01, 0x02, 0x03, 0xFF]"

definition Error_values :: "int list" where
  "Error_values = [0x00, 0x01, 0x02, 0x03, 0x04, 0x05, 0x06, 0x07, 0x08]"

definition DFUStatus_values :: "int list" where
  "DFUStatus_values = [0x00, 0x01, 0x02, 0x03, 0x04, 0x05, 0x07, 0x08, 0x0A, 0xFF]"

definition AttentionEvent_values :: "int list" where
  "AttentionEvent_values = [0x00, 0x01]"

definition DfuStatus_values :: "int list" where
  "DfuStatus_values = [0x01, 0x00]"

definition enum_from_bytes :: "int list \<Rightarrow> bytes \<Rightarrow> error + int" where
  "enum_from_bytes members b =
     (let v = from_bytes b in if v \<in> set members then Inr v else Inl ValueError)"

text \<open>
  A \<^verbatim>\<open>BytesIO\<close> source stream is the list of bytes not read yet.
  \<^verbatim>\<open>stream.read(n)\<close> returns at most \<open>n\<close> bytes (fewer at the end of the stream,
  without an error) and everything left for a negative \<open>n\<close>.
\<close>

definition stream_read :: "int \<Rightarrow> bytes \<Rightarrow> bytes \<times> bytes" where
  "stream_read n stream =
     (if n < 0 then (stream, [])
      else (take (nat n) stream, drop (nat n) stream))"

text \<open>
  \<^verbatim>\<open>ModelDesc\<close>: \<open>model_id\<close> is None in a new object, \<open>config\<close> is empty.
\<close>

record ModelDesc =
  model_id :: "int option"
  config :: bytes

definition ModelDesc_new :: ModelDesc where
  "ModelDesc_new = \<lparr>model_id = None, config = []\<rparr>"

definition ModelDesc_get_length :: "ModelDesc \<Rightarrow> int" where
  "ModelDesc_get_length self = UART_MODEL_ID_LEN + int (length (config self))"


text \<open>\<^verbatim>\<open>ModelDesc.deserialize\<close>: the object filled and the rest of the stream.\<close>

definition ModelDesc_deserialize :: "ModelDesc \<Rightarrow> bytes \<Rightarrow> error + (ModelDesc \<times> bytes)" where
  "ModelDesc_deserialize self stream =
     (let (b, stream) = stream_read UART_MODEL_ID_LEN stream in
      and_then (enum_from_bytes ModelID_values b) (\<lambda>mid.
        let self = self\<lparr>model_id := Some mid\<rparr> in
        if mid = SensorSetupServerID
        then (let (c, stream) = stream_read UART_SENSOR_SETUP_SERVER_CONFIG_LEN stream
              in Inr (self\<lparr>config := c\<rparr>, stream))
        else Inr (self, stream)))"

section \<open>Messages (messages.py)\<close>

text \<open>
  One constructor per message class, carrying the fields of the class in the order its
  \<^verbatim>\<open>__init__\<close> sets them. \<^verbatim>\<open>__eq__\<close> of every class compares the type and all fields, so
  Python's \<open>==\<close> on messages is equality of these values.
\<close>

datatype message =
    GenericMessage
  | PingRequestMessage bytes
  | PongResponseMessage bytes
  | InitDeviceEventMessage "int list"
  | CreateInstancesRequestMessage "ModelDesc list"
  | CreateInstancesResponseMessage "int list"
  | InitNodeEventMessage "int list"
  | MeshMessageRequestMessage int int int bytes
  | StartNodeRequestMessage
  | StartNodeResponseMessage
  | FactoryResetRequestMessage
  | FactoryResetResponseMessage
  | FactoryResetEventMessage
  | MeshMessageResponseMessage int int
  | CurrentStateRequestMessage
  | CurrentStateResponseMessage int
  | ErrorMessage int
  | FirmwareVersionRequestMessage
  | FirmwareVersionResponseMessage bytes
  | SensorUpdateRequestMessage int int bytes
  | AttentionEventMessage int
  | SoftResetRequestMessage
  | SoftResetResponseMessage
  | SensorUpdateResponseMessage
  | DeviceUUIDRequestMessage
  | DeviceUUIDResponseMessage bytes
  | DfuInitRequestMessage int bytes int bytes
  | DfuInitResponseMessage int
  | DfuStatusRequestMessage
  | DfuStatusResponseMessage int int int int
  | DfuPageCreateRequestMessage int
  | DfuPageCreateResponseMessage int
  | DfuWriteDataEventMessage int bytes
  | DfuPageStoreRequestMessage
  | DfuPageStoreResponseMessage int
  | DfuStateRequestMessage
  | DfuStateResponseMessage int
  | DfuCancelRequestMessage
  | DfuCancelResponseMessage
  | StartTestRequest int int int
  | StartTestResponse

text \<open>\<^verbatim>\<open>self.type\<close>: the \<^verbatim>\<open>UartCommand\<close> value each class sets in \<^verbatim>\<open>__init__\<close>.\<close>

primrec msg_type :: "message \<Rightarrow> int" where
  "msg_type GenericMessage = 0xFF"
| "msg_type (PingRequestMessage x1) = 0x01"
| "msg_type (PongResponseMessage x1) = 0x02"
| "msg_type (InitDeviceEventMessage x1) = 0x03"
| "msg_type (CreateInstancesRequestMessage x1) = 0x04"
| "msg_type (CreateInstancesResponseMessage x1) = 0x05"
| "msg_type (InitNodeEventMessage x1) = 0x06"
| "msg_type (MeshMessageRequestMessage x1 x2 x3 x4) = 0x07"
| "msg_type StartNodeRequestMessage = 0x09"
| "msg_type StartNodeResponseMessage = 0x0B"
| "msg_type FactoryResetRequestMessage = 0x0C"
| "msg_type FactoryResetResponseMessage = 0x0D"
| "msg_type FactoryResetEventMessage = 0x0E"
| "msg_type (MeshMessageResponseMessage x1 x2) = 0x0F"
| "msg_type CurrentStateRequestMessage = 0x10"
| "msg_type (CurrentStateResponseMessage x1) = 0x11"
| "msg_type (ErrorMessage x1) = 0x12"
| "msg_type FirmwareVersionRequestMessage = 0x13"
| "msg_type (FirmwareVersionResponseMessage x1) = 0x14"
| "msg_type (SensorUpdateRequestMessage x1 x2 x3) = 0x15"
| "msg_type (AttentionEventMessage x1) = 0x16"
| "msg_type SoftResetRequestMessage = 0x17"
| "msg_type SoftResetResponseMessage = 0x18"
| "msg_type SensorUpdateResponseMessage = 0x19"
| "msg_type DeviceUUIDRequestMessage = 0x1A"
| "msg_type (DeviceUUIDResponseMessage x1) = 0x1B"
| "msg_type (StartTestRequest x1 x2 x3) = 0x20"
| "msg_type StartTestResponse = 0x21"
| "msg_type (DfuInitRequestMessage x1 x2 x3 x4) = 0x80"
| "msg_type (DfuInitResponseMessage x1) = 0x81"
| "msg_type DfuStatusRequestMessage = 0x82"
| "msg_type (DfuStatusResponseMessage x1 x2 x3 x4) = 0x83"
| "msg_type (DfuPageCreateRequestMessage x1) = 0x84"
| "msg_type (DfuPageCreateResponseMessage x1) = 0x85"
| "msg_type (DfuWriteDataEventMessage x1 x2) = 0x86"
| "msg_type DfuPageStoreRequestMessage = 0x87"
| "msg_type (DfuPageStoreResponseMessage x1) = 0x88"
| "msg_type DfuStateRequestMessage = 0x89"
| "msg_type (DfuStateResponseMessage x1) = 0x8A"
| "msg_type DfuCancelRequestMessage = 0x8B"
| "msg_type DfuCancelResponseMessage = 0x8C"



subsection \<open>Serialization\<close>






subsection \<open>Deserialization\<close>

text \<open>
  A \<^verbatim>\<open>deserialize\<close> method fills the fields of \<open>self\<close> from the stream; the model returns
  the filled message or the exception. The payload length is called \<open>len\<close> here.
  \<^verbatim>\<open>deserialize_common_part\<close> reads LENGTH and OPCODE and returns the length with the
  rest of the stream.
\<close>

definition deserialize_common_part :: "message \<Rightarrow> bytes \<Rightarrow> error + (int \<times> bytes)" where
  "deserialize_common_part self stream =
     (let (l, stream) = stream_read UART_LENGTH_LEN stream;
          len = from_bytes l;
          (c, stream) = stream_read UART_CMD_LEN stream;
          opcode = from_bytes c
      in if opcode \<noteq> msg_type self then Inl InvalidOpcode else Inr (len, stream))"

text \<open>
  The loop \<^verbatim>\<open>while length >= UART_MODEL_ID_LEN\<close> of the three messages that carry model
  identifiers: it returns the length left, the stream and the extended list.
\<close>

function read_model_ids :: "int \<Rightarrow> bytes \<Rightarrow> int list \<Rightarrow> error + (int \<times> bytes \<times> int list)" where
  "read_model_ids len stream model_ids =
     (if len \<ge> UART_MODEL_ID_LEN
      then (let (b, stream') = stream_read UART_MODEL_ID_LEN stream in
            case enum_from_bytes ModelID_values b of
              Inl e \<Rightarrow> Inl e
            | Inr mid \<Rightarrow> read_model_ids (len - UART_MODEL_ID_LEN) stream' (model_ids @ [mid]))
      else Inr (len, stream, model_ids))"
  by pat_completeness auto
termination
  by (relation "measure (\<lambda>(len, stream, model_ids). nat len)") auto

declare read_model_ids.simps [simp del]

text \<open>The same loop of \<^verbatim>\<open>CreateInstancesRequestMessage\<close>, over model descriptions.\<close>

lemma ModelDesc_get_length_ge: "2 \<le> ModelDesc_get_length d"
  by (simp add: ModelDesc_get_length_def)

function read_model_descs ::
  "int \<Rightarrow> bytes \<Rightarrow> ModelDesc list \<Rightarrow> error + (int \<times> bytes \<times> ModelDesc list)" where
  "read_model_descs len stream model_descs =
     (if len \<ge> UART_MODEL_ID_LEN
      then (case ModelDesc_deserialize ModelDesc_new stream of
              Inl e \<Rightarrow> Inl e
            | Inr (model_desc, stream') \<Rightarrow>
                read_model_descs (len - ModelDesc_get_length model_desc) stream'
                  (model_descs @ [model_desc]))
      else Inr (len, stream, model_descs))"
  by pat_completeness auto
termination
proof (relation "measure (\<lambda>(len, stream, model_descs). nat len)", goal_cases)
  case 1
  show ?case by simp
next
  case (2 len stream model_descs x2 model_desc stream')
  have "2 \<le> ModelDesc_get_length model_desc" by (rule ModelDesc_get_length_ge)
  with 2 show ?case by simp
qed

declare read_model_descs.simps [simp del]

text \<open>
  The bodies shared by several classes: no payload (LENGTH must be 0); the list of model
  identifiers; one 1-byte enumeration field, converted before the length is checked.
\<close>

definition deserialize_no_payload :: "message \<Rightarrow> bytes \<Rightarrow> error + message" where
  "deserialize_no_payload self stream =
     and_then (deserialize_common_part self stream) (\<lambda>(len, stream).
       if len \<noteq> 0 then Inl InvalidLen else Inr self)"

definition deserialize_model_ids ::
  "message \<Rightarrow> (int list \<Rightarrow> message) \<Rightarrow> int list \<Rightarrow> bytes \<Rightarrow> error + message" where
  "deserialize_model_ids self set_model_ids model_ids stream =
     and_then (deserialize_common_part self stream) (\<lambda>(len, stream).
     and_then (read_model_ids len stream model_ids) (\<lambda>(len, stream, model_ids).
       if len \<noteq> 0 then Inl InvalidLen else Inr (set_model_ids model_ids)))"

definition deserialize_enum_field ::
  "message \<Rightarrow> int list \<Rightarrow> (int \<Rightarrow> message) \<Rightarrow> bytes \<Rightarrow> error + message" where
  "deserialize_enum_field self members set_field stream =
     and_then (deserialize_common_part self stream) (\<lambda>(len, stream).
       let (b, stream) = stream_read 1 stream in
       and_then (enum_from_bytes members b) (\<lambda>v.
         if len - 1 \<noteq> 0 then Inl InvalidLen else Inr (set_field v)))"

primrec deserialize :: "message \<Rightarrow> bytes \<Rightarrow> error + message" where
  "deserialize GenericMessage stream = Inl AssertionError"
| "deserialize (PingRequestMessage data0) stream =
     and_then (deserialize_common_part (PingRequestMessage data0) stream) (\<lambda>(len, stream).
       let (data, stream) = stream_read len stream in
       if len \<noteq> int (length data) then Inl InvalidLen else Inr (PingRequestMessage data))"
| "deserialize (PongResponseMessage data0) stream =
     and_then (deserialize_common_part (PongResponseMessage data0) stream) (\<lambda>(len, stream).
       let (data, stream) = stream_read len stream in
       if len \<noteq> int (length data) then Inl InvalidLen else Inr (PongResponseMessage data))"
| "deserialize (InitDeviceEventMessage model_ids) stream =
     deserialize_model_ids (InitDeviceEventMessage model_ids) InitDeviceEventMessage
       model_ids stream"
| "deserialize (CreateInstancesRequestMessage model_descs) stream =
     and_then (deserialize_common_part (CreateInstancesRequestMessage model_descs) stream)
       (\<lambda>(len, stream).
     and_then (read_model_descs len stream model_descs) (\<lambda>(len, stream, model_descs).
       if len \<noteq> 0 then Inl InvalidLen else Inr (CreateInstancesRequestMessage model_descs)))"
| "deserialize (CreateInstancesResponseMessage model_ids) stream =
     deserialize_model_ids (CreateInstancesResponseMessage model_ids)
       CreateInstancesResponseMessage model_ids stream"
| "deserialize (InitNodeEventMessage model_ids) stream =
     deserialize_model_ids (InitNodeEventMessage model_ids) InitNodeEventMessage
       model_ids stream"
| "deserialize (MeshMessageRequestMessage i0 s0 o0 c0) stream =
     and_then (deserialize_common_part (MeshMessageRequestMessage i0 s0 o0 c0) stream)
       (\<lambda>(len, stream).
       let (b1, stream) = stream_read UART_INSTANCE_INDEX_LEN stream;
           instance_index = from_bytes b1;
           (b2, stream) = stream_read UART_SUB_INDEX_LEN stream;
           sub_index = from_bytes b2;
           (b3, stream) = stream_read UART_MESH_OPCODE_LEN stream;
           mesh_opcode = from_bytes b3;
           len = len - (UART_INSTANCE_INDEX_LEN + UART_SUB_INDEX_LEN + UART_MESH_OPCODE_LEN);
           (mesh_command, stream) = stream_read len stream
       in if len \<noteq> int (length mesh_command) then Inl InvalidLen
          else Inr (MeshMessageRequestMessage instance_index sub_index mesh_opcode mesh_command))"
| "deserialize StartNodeRequestMessage stream =
     deserialize_no_payload StartNodeRequestMessage stream"
| "deserialize StartNodeResponseMessage stream =
     deserialize_no_payload StartNodeResponseMessage stream"
| "deserialize FactoryResetRequestMessage stream =
     deserialize_no_payload FactoryResetRequestMessage stream"
| "deserialize FactoryResetResponseMessage stream =
     deserialize_no_payload FactoryResetResponseMessage stream"
| "deserialize FactoryResetEventMessage stream =
     deserialize_no_payload FactoryResetEventMessage stream"
| "deserialize (MeshMessageResponseMessage i0 s0) stream =
     and_then (deserialize_common_part (MeshMessageResponseMessage i0 s0) stream)
       (\<lambda>(len, stream).
       let (b1, stream) = stream_read UART_INSTANCE_INDEX_LEN stream;
           instance_index = from_bytes b1;
           (b2, stream) = stream_read UART_SUB_INDEX_LEN stream;
           sub_index = from_bytes b2
       in if len - UART_INSTANCE_INDEX_LEN - UART_SUB_INDEX_LEN \<noteq> 0 then Inl InvalidLen
          else Inr (MeshMessageResponseMessage instance_index sub_index))"
| "deserialize CurrentStateRequestMessage stream =
     deserialize_no_payload CurrentStateRequestMessage stream"
| "deserialize (CurrentStateResponseMessage state0) stream =
     deserialize_enum_field (CurrentStateResponseMessage state0) ModemState_values
       CurrentStateResponseMessage stream"
| "deserialize (ErrorMessage err0) stream =
     deserialize_enum_field (ErrorMessage err0) Error_values ErrorMessage stream"
| "deserialize FirmwareVersionRequestMessage stream =
     deserialize_no_payload FirmwareVersionRequestMessage stream"
| "deserialize (FirmwareVersionResponseMessage v0) stream =
     and_then (deserialize_common_part (FirmwareVersionResponseMessage v0) stream)
       (\<lambda>(len, stream).
       if len = 0 then Inl InvalidLen
       else (let (firmware_version, stream) = stream_read len stream
             in Inr (FirmwareVersionResponseMessage firmware_version)))"
| "deserialize (SensorUpdateRequestMessage i0 p0 d0) stream =
     and_then (deserialize_common_part (SensorUpdateRequestMessage i0 p0 d0) stream)
       (\<lambda>(len, stream).
       let (b1, stream) = stream_read UART_INSTANCE_INDEX_LEN stream;
           instance_index = from_bytes b1;
           (b2, stream) = stream_read UART_PROPERTY_ID_LEN stream;
           property_id = from_bytes b2;
           len = len - (UART_INSTANCE_INDEX_LEN + UART_PROPERTY_ID_LEN);
           (data, stream) = stream_read len stream
       in if len \<noteq> int (length data) then Inl InvalidLen
          else Inr (SensorUpdateRequestMessage instance_index property_id data))"
| "deserialize (AttentionEventMessage a0) stream =
     deserialize_enum_field (AttentionEventMessage a0) AttentionEvent_values
       AttentionEventMessage stream"
| "deserialize SoftResetRequestMessage stream =
     deserialize_no_payload SoftResetRequestMessage stream"
| "deserialize SoftResetResponseMessage stream =
     deserialize_no_payload SoftResetResponseMessage stream"
| "deserialize SensorUpdateResponseMessage stream =
     deserialize_no_payload SensorUpdateResponseMessage stream"
| "deserialize DeviceUUIDRequestMessage stream =
     deserialize_no_payload DeviceUUIDRequestMessage stream"
| "deserialize (DeviceUUIDResponseMessage u0) stream =
     and_then (deserialize_common_part (DeviceUUIDResponseMessage u0) stream)
       (\<lambda>(len, stream).
       let (uuid, stream) = stream_read UART_UUID_LEN stream
       in if len - UART_UUID_LEN \<noteq> 0 then Inl InvalidLen
          else if int (length uuid) - UART_UUID_LEN \<noteq> 0 then Inl InvalidLen
          else Inr (DeviceUUIDResponseMessage uuid))"
| "deserialize (DfuInitRequestMessage f0 h0 l0 a0) stream =
     and_then (deserialize_common_part (DfuInitRequestMessage f0 h0 l0 a0) stream)
       (\<lambda>(len, stream).
       let (b1, stream) = stream_read UART_DFU_FIRMWARE_SIZE_LEN stream;
           firmware_size = from_bytes b1;
           (firmware_sha256, stream) = stream_read UART_DFU_FIRMWARE_SHA256_LEN stream;
           (b2, stream) = stream_read UART_DFU_APP_DATA_LENGTH_LEN stream;
           app_data_length = from_bytes b2;
           len = len - (UART_DFU_FIRMWARE_SIZE_LEN + UART_DFU_FIRMWARE_SHA256_LEN +
                        UART_DFU_APP_DATA_LENGTH_LEN)
       in if len \<noteq> app_data_length then Inl InvalidLen
          else (let (app_data, stream) = stream_read len stream
                in if app_data_length \<noteq> int (length app_data) then Inl InvalidLen
                   else Inr (DfuInitRequestMessage firmware_size firmware_sha256
                               app_data_length app_data)))"
| "deserialize (DfuInitResponseMessage s0) stream =
     deserialize_enum_field (DfuInitResponseMessage s0) DFUStatus_values
       DfuInitResponseMessage stream"
| "deserialize DfuStatusRequestMessage stream =
     deserialize_no_payload DfuStatusRequestMessage stream"
| "deserialize (DfuStatusResponseMessage s0 p0 o0 c0) stream =
     and_then (deserialize_common_part (DfuStatusResponseMessage s0 p0 o0 c0) stream)
       (\<lambda>(len, stream).
       let (b1, stream) = stream_read UART_DFU_STATUS_LEN stream in
       and_then (enum_from_bytes DFUStatus_values b1) (\<lambda>status.
         let (b2, stream) = stream_read UART_DFU_SUPPORTED_PAGE_SIZE_LEN stream;
             supported_page_size = from_bytes b2;
             (b3, stream) = stream_read UART_DFU_FIRMWARE_OFFSET_LEN stream;
             firmware_offset = from_bytes b3;
             (b4, stream) = stream_read UART_DFU_FIRMWARE_CRC_LEN stream;
             firmware_crc = from_bytes b4
         in if len - UART_DFU_STATUS_LEN - UART_DFU_SUPPORTED_PAGE_SIZE_LEN -
                 UART_DFU_FIRMWARE_OFFSET_LEN - UART_DFU_FIRMWARE_CRC_LEN \<noteq> 0
            then Inl InvalidLen
            else Inr (DfuStatusResponseMessage status supported_page_size firmware_offset
                        firmware_crc)))"
| "deserialize (DfuPageCreateRequestMessage r0) stream =
     and_then (deserialize_common_part (DfuPageCreateRequestMessage r0) stream)
       (\<lambda>(len, stream).
       let (b, stream) = stream_read UART_REQUESTED_PAGE_SIZE_LEN stream;
           requested_page_size = from_bytes b
       in if len - UART_REQUESTED_PAGE_SIZE_LEN \<noteq> 0 then Inl InvalidLen
          else Inr (DfuPageCreateRequestMessage requested_page_size))"
| "deserialize (DfuPageCreateResponseMessage s0) stream =
     deserialize_enum_field (DfuPageCreateResponseMessage s0) DFUStatus_values
       DfuPageCreateResponseMessage stream"
| "deserialize (DfuWriteDataEventMessage l0 d0) stream =
     and_then (deserialize_common_part (DfuWriteDataEventMessage l0 d0) stream)
       (\<lambda>(len, stream).
       let (b, stream) = stream_read UART_DFU_DATA_LENGTH_LEN stream;
           data_len = from_bytes b;
           len = len - UART_DFU_DATA_LENGTH_LEN
       in if len \<noteq> data_len then Inl InvalidLen
          else (let (data, stream) = stream_read len stream
                in if data_len \<noteq> int (length data) then Inl InvalidLen
                   else Inr (DfuWriteDataEventMessage data_len data)))"
| "deserialize DfuPageStoreRequestMessage stream =
     deserialize_no_payload DfuPageStoreRequestMessage stream"
| "deserialize (DfuPageStoreResponseMessage s0) stream =
     deserialize_enum_field (DfuPageStoreResponseMessage s0) DFUStatus_values
       DfuPageStoreResponseMessage stream"
| "deserialize DfuStateRequestMessage stream =
     deserialize_no_payload DfuStateRequestMessage stream"
| "deserialize (DfuStateResponseMessage s0) stream =
     deserialize_enum_field (DfuStateResponseMessage s0) DfuStatus_values
       DfuStateResponseMessage stream"
| "deserialize DfuCancelRequestMessage stream =
     deserialize_no_payload DfuCancelRequestMessage stream"
| "deserialize DfuCancelResponseMessage stream =
     deserialize_no_payload DfuCancelResponseMessage stream"
| "deserialize (StartTestRequest c0 t0 i0) stream =
     and_then (deserialize_common_part (StartTestRequest c0 t0 i0) stream) (\<lambda>(len, stream).
       let (b1, stream) = stream_read UART_COMPANY_ID_LEN stream;
           company_id = from_bytes b1;
           (b2, stream) = stream_read UART_TEST_ID_LEN stream;
           test_id = from_bytes b2;
           (b3, stream) = stream_read UART_INSTANCE_INDEX_LEN stream;
           instance_index = from_bytes b3;
           len = len - (UART_COMPANY_ID_LEN + UART_TEST_ID_LEN + UART_INSTANCE_INDEX_LEN)
       in if len \<noteq> 0 then Inl InvalidLen
          else Inr (StartTestRequest company_id test_id instance_index))"
| "deserialize StartTestResponse stream = deserialize_no_payload StartTestResponse stream"

section \<open>Message factory (message\_factory.py)\<close>

text \<open>
  \<^verbatim>\<open>UART_CLASSES\<close> maps an opcode to a message class; \<^verbatim>\<open>msg_class()\<close> makes the new
  object whose fields \<^verbatim>\<open>__init__\<close> has set. The table pairs each opcode with that
  new object.
\<close>

definition UART_CLASSES :: "(int \<times> message) list" where
  "UART_CLASSES =
    [(0x01, PingRequestMessage []),
     (0x02, PongResponseMessage []),
     (0x03, InitDeviceEventMessage []),
     (0x04, CreateInstancesRequestMessage []),
     (0x05, CreateInstancesResponseMessage []),
     (0x06, InitNodeEventMessage []),
     (0x07, MeshMessageRequestMessage 0 0 0 []),
     (0x09, StartNodeRequestMessage),
     (0x0B, StartNodeResponseMessage),
     (0x0C, FactoryResetRequestMessage),
     (0x0D, FactoryResetResponseMessage),
     (0x0E, FactoryResetEventMessage),
     (0x0F, MeshMessageResponseMessage 0 0),
     (0x10, CurrentStateRequestMessage),
     (0x11, CurrentStateResponseMessage 0xFF),
     (0x12, ErrorMessage 0x00),
     (0x13, FirmwareVersionRequestMessage),
     (0x14, FirmwareVersionResponseMessage []),
     (0x15, SensorUpdateRequestMessage 0 0 []),
     (0x16, AttentionEventMessage 0x00),
     (0x17, SoftResetRequestMessage),
     (0x18, SoftResetResponseMessage),
     (0x19, SensorUpdateResponseMessage),
     (0x1A, DeviceUUIDRequestMessage),
     (0x1B, DeviceUUIDResponseMessage (replicate 16 0)),
     (0x20, StartTestRequest 0 0 0),
     (0x21, StartTestResponse),
     (0xFF, GenericMessage),
     (0x80, DfuInitRequestMessage 0 (replicate 32 0) 0 []),
     (0x81, DfuInitResponseMessage 0x00),
     (0x82, DfuStatusRequestMessage),
     (0x83, DfuStatusResponseMessage 0x00 0 0 0),
     (0x84, DfuPageCreateRequestMessage 0),
     (0x85, DfuPageCreateResponseMessage 0x00),
     (0x86, DfuWriteDataEventMessage 0 []),
     (0x87, DfuPageStoreRequestMessage),
     (0x88, DfuPageStoreResponseMessage 0x00),
     (0x89, DfuStateRequestMessage),
     (0x8A, DfuStateResponseMessage 0x00),
     (0x8B, DfuCancelRequestMessage),
     (0x8C, DfuCancelResponseMessage)]"


text \<open>
  \<^verbatim>\<open>deserialize_message(data)\<close>: \<^verbatim>\<open>data[1]\<close> raises IndexError on fewer than two bytes,
  turned into InvalidLen; a KeyError of the table lookup is turned into InvalidOpcode (no
  decoder raises KeyError).
\<close>

definition deserialize_message :: "bytes \<Rightarrow> error + message" where
  "deserialize_message data =
     (if length data < 2 then Inl InvalidLen
      else (let cmd = uint (data ! 1) in
            case map_of UART_CLASSES cmd of
              None \<Rightarrow> Inl InvalidOpcode
            | Some msg \<Rightarrow> deserialize msg data))"

section \<open>Sets of messages the claims speak about\<close>

text \<open>
  The classes without fields: their \<^verbatim>\<open>deserialize\<close> reads the header and only checks
  that the length is 0 (start, stop and reset style requests and responses).
\<close>

definition zero_payload_messages :: "message list" where
  "zero_payload_messages =
     [StartNodeRequestMessage, StartNodeResponseMessage, FactoryResetRequestMessage,
      FactoryResetResponseMessage, FactoryResetEventMessage, CurrentStateRequestMessage,
      FirmwareVersionRequestMessage, SoftResetRequestMessage, SoftResetResponseMessage,
      SensorUpdateResponseMessage, DeviceUUIDRequestMessage, DfuStatusRequestMessage,
      DfuPageStoreRequestMessage, DfuStateRequestMessage, DfuCancelRequestMessage,
      DfuCancelResponseMessage, StartTestResponse]"

text \<open>
  The instances the round trip is about. A field is within its declared size domain when
  an unsigned integer fits its byte width, an enumeration field holds a member of its
  enumeration, a fixed-size byte field has its fixed size, and the payload length fits the
  LENGTH byte. A ModelDesc is consistent when its identifier is set to a member of ModelID
  and it carries the 10-byte configuration exactly when the identifier is
  SensorSetupServerID. An embedded length field equals the number of bytes it describes.
\<close>

definition in_range :: "int \<Rightarrow> nat \<Rightarrow> bool" where
  "in_range x n = (0 \<le> x \<and> x < 256 ^ n)"






section \<open>Facts about the conversions and the reassembler\<close>

lemma and_then_simps [simp]:
  "and_then (Inl e) f = Inl e"
  "and_then (Inr x) f = f x"
  by (simp_all add: and_then_def)

lemma le_digits_length [simp]: "length (le_digits n x) = n"
  by (induction n arbitrary: x) simp_all

lemma uint_byte_of_int: "uint (word_of_int (x mod 256) :: byte) = x mod 256"
  by (simp add: uint_word_of_int)

lemma from_bytes_le_digits:
  "0 \<le> x \<Longrightarrow> x < 256 ^ n \<Longrightarrow> from_bytes (le_digits n x) = x"
proof (induction n arbitrary: x)
  case 0
  then show ?case by simp
next
  case (Suc n)
  have "0 \<le> x div 256" using Suc.prems by simp
  moreover have "x div 256 < 256 ^ n" using Suc.prems by (simp add: div_less_iff_less_mult)
  ultimately have "from_bytes (le_digits n (x div 256)) = x div 256" by (rule Suc.IH)
  then show ?case by (simp add: uint_byte_of_int)
qed

lemma calculate_crc_range: "0 \<le> calculate_crc bs \<and> calculate_crc bs < 65536"
proof -
  have "uint (crc16_register 0xFFFF bs) < 2 ^ LENGTH(16)" by (rule uint_lt2p)
  then show ?thesis by (simp add: calculate_crc_def)
qed

lemma calculate_crc_bytes_eq:
  "calculate_crc_bytes bs = Inr (le_digits 2 (calculate_crc bs))"
  using calculate_crc_range [of bs] by (simp add: calculate_crc_bytes_def to_bytes_def)

lemma le_digits_2: "le_digits 2 x = [word_of_int (x mod 256), word_of_int (x div 256 mod 256)]"
  by (simp add: numeral_2_eq_2)

lemma from_bytes_crc_digits: "from_bytes (le_digits 2 (calculate_crc bs)) = calculate_crc bs"
  using calculate_crc_range [of bs] by (intro from_bytes_le_digits) simp_all

lemma eat_bytes_preamble_first:
  "eat_bytes_until_preamble mutable (0xAA # 0x55 # xs) = Inr (0xAA # 0x55 # xs)"
  by (simp add: eat_bytes_until_preamble_def UART_PREAMBLE_def)

lemma frame_take:
  "take (length f + 4) (a # b # f @ c1 # c2 # rest) = a # b # f @ [c1, c2]"
  by (simp add: take_Cons')

lemma frame_drop:
  "drop (length f + 4) (a # b # f @ c1 # c2 # rest) = rest"
  by (simp add: drop_Cons')

lemma frame_body:
  "drop 2 (take (length f + 2) (a # b # f @ [c1, c2])) = f"
  by (simp add: take_Cons' drop_Cons')

lemma frame_trailer:
  "drop (length f + 2) (a # b # f @ [c1, c2]) = [c1, c2]"
  by (simp add: drop_Cons')

lemma extract_frames_candidate:
  assumes len: "length payload = unat l"
  shows "extract_frames mutable (UART_PREAMBLE @ l # opcode # payload @ [c1, c2] @ rest) =
     (if calculate_crc (l # opcode # payload) = from_bytes [c1, c2]
      then (if rest \<noteq> []
            then (case extract_frames mutable rest of
                    Inl e \<Rightarrow> Inl e
                  | Inr (another_frames, remaining_data) \<Rightarrow>
                      Inr ((l # opcode # payload) # another_frames, remaining_data))
            else Inr ([l # opcode # payload], []))
      else Inr ([], rest))"
proof -
  define f where "f = l # opcode # payload"
  define raw where "raw = 0xAA # 0x55 # f @ c1 # c2 # rest"
  have lf: "length f = 2 + unat l" using len by (simp add: f_def)
  have raw_eq: "UART_PREAMBLE @ l # opcode # payload @ [c1, c2] @ rest = raw"
    by (simp add: raw_def f_def UART_PREAMBLE_def)
  have eat: "eat_bytes_until_preamble mutable raw = Inr raw"
    unfolding raw_def by (rule eat_bytes_preamble_first)
  have long: "\<not> length raw < 6" by (simp add: raw_def lf)
  have dl: "nat (from_bytes (slice 2 3 raw)) = unat l"
    by (simp add: raw_def f_def slice_def)
  have long2: "\<not> length raw < 6 + unat l" by (simp add: raw_def lf)
  have e1: "4 + unat l + 2 = length f + 4" by (simp add: lf)
  have e2: "6 + unat l = length f + 4" by (simp add: lf)
  have e3: "4 + unat l = length f + 2" by (simp add: lf)
  have fr: "take (4 + unat l + 2) raw = 0xAA # 0x55 # f @ [c1, c2]"
    by (simp only: e1 raw_def frame_take)
  have rm: "drop (6 + unat l) raw = rest"
    by (simp only: e2 raw_def frame_drop)
  have lfr: "length (0xAA # 0x55 # f @ [c1, c2]) - 2 = length f + 2" by simp
  have body: "slice 2 (4 + unat l) (0xAA # 0x55 # f @ [c1, c2]) = f"
    by (simp only: e3 slice_def frame_body)
  have body2: "slice 2 (length f + 2) (0xAA # 0x55 # f @ [c1, c2]) = f"
    unfolding slice_def by (rule frame_body)
  have tr: "drop (length f + 2) (0xAA # 0x55 # f @ [c1, c2]) = [c1, c2]"
    by (rule frame_trailer)
  have "extract_frames mutable raw =
     (if calculate_crc f = from_bytes [c1, c2]
      then (if rest \<noteq> []
            then (case extract_frames mutable rest of
                    Inl e \<Rightarrow> Inl e
                  | Inr (another_frames, remaining_data) \<Rightarrow>
                      Inr (f # another_frames, remaining_data))
            else Inr ([f], []))
      else Inr ([], rest))"
    apply (subst extract_frames.simps)
    apply (simp only: eat sum.case long if_False dl long2 Let_def fr rm lfr body body2 tr)
    apply simp
    done
  then show ?thesis unfolding raw_eq f_def .
qed

lemma crc_example: "calculate_crc [1, 1, 0x22] = 0x88DB"
  by (simp add: calculate_crc_def crc16_byte_def crc16_shift_def)

lemma crc_example_no_length: "calculate_crc [1, 0x22] = 0x06C2"
  by (simp add: calculate_crc_def crc16_byte_def crc16_shift_def)

lemma extract_frames_short:
  "length xs < 4 \<Longrightarrow> extract_frames mutable (0xAA # 0x55 # xs) = Inr ([], 0xAA # 0x55 # xs)"
  by (subst extract_frames.simps) (simp add: eat_bytes_preamble_first)

text \<open>
  A buffer that starts with the preamble and is incomplete (fewer than 6 bytes, or fewer
  than 6 + LENGTH bytes) is returned unchanged, with no frame.
\<close>

lemma extract_frames_incomplete:
  assumes "length xs < 4 \<or> length xs < 4 + unat (xs ! 0)"
  shows "extract_frames mutable (0xAA # 0x55 # xs) = Inr ([], 0xAA # 0x55 # xs)"
proof (cases "length xs < 4")
  case True
  then show ?thesis by (rule extract_frames_short)
next
  case False
  with assms have inc: "length xs < 4 + unat (xs ! 0)" by simp
  from False obtain x xs' where xs: "xs = x # xs'" by (cases xs) auto
  have dl: "nat (from_bytes (slice 2 3 (0xAA # 0x55 # xs))) = unat x"
    by (simp add: xs slice_def)
  have short: "length (0xAA # 0x55 # xs) < 6 + unat x" using inc by (simp add: xs)
  have long: "\<not> length (0xAA # 0x55 # xs) < 6" using False by simp
  show ?thesis
    apply (subst extract_frames.simps)
    apply (simp only: eat_bytes_preamble_first sum.case long if_False dl Let_def short if_True)
    done
qed

text \<open>
  Claim C4. \<^verbatim>\<open>extract_frames\<close> applied to the seven bytes AA 55 01 01 22 DB 88 followed by
  any incomplete second fragment that begins with the preamble (the preamble and then fewer
  than 4 bytes, or fewer than 4 + LENGTH bytes) returns exactly one frame, the bytes
  01 01 22 (LENGTH, OPCODE and PAYLOAD, preamble and CRC stripped), and the fragment
  unchanged as the leftover; so DB 88 is the checksum accepted for this frame. It holds for
  an immutable \<^verbatim>\<open>bytes\<close> argument as for a bytearray.
\<close>

theorem extract_frames_one_and_a_half:
  assumes "length xs < 4 \<or> length xs < 4 + unat (xs ! 0)"
  shows "extract_frames mutable
           ([0xAA, 0x55, 0x01, 0x01, 0x22, 0xDB, 0x88] @ UART_PREAMBLE @ xs) =
         Inr ([[0x01, 0x01, 0x22]], UART_PREAMBLE @ xs)"
proof -
  note r = extract_frames_incomplete [OF assms, of mutable]
  have "extract_frames mutable
      (UART_PREAMBLE @ 0x01 # 0x01 # [0x22] @ [0xDB, 0x88] @ (UART_PREAMBLE @ xs)) =
      Inr ([[0x01, 0x01, 0x22]], UART_PREAMBLE @ xs)"
    by (subst extract_frames_candidate) (simp_all add: crc_example r UART_PREAMBLE_def)
  then show ?thesis by (simp add: UART_PREAMBLE_def)
qed

text \<open>
  C4 at the fragments AA 55 01 01 (of the claim), AA 55 01 01 22 (of the repository's test)
  and AA 55 05 01 22 33 44 (six bytes or more, but fewer than its LENGTH asks for).
\<close>

theorem extract_frames_one_and_a_half_witness:
  "extract_frames False [0xAA, 0x55, 0x01, 0x01, 0x22, 0xDB, 0x88, 0xAA, 0x55, 0x01, 0x01] =
     Inr ([[0x01, 0x01, 0x22]], [0xAA, 0x55, 0x01, 0x01]) \<and>
   extract_frames False
     [0xAA, 0x55, 0x01, 0x01, 0x22, 0xDB, 0x88, 0xAA, 0x55, 0x01, 0x01, 0x22] =
     Inr ([[0x01, 0x01, 0x22]], [0xAA, 0x55, 0x01, 0x01, 0x22]) \<and>
   extract_frames True
     [0xAA, 0x55, 0x01, 0x01, 0x22, 0xDB, 0x88, 0xAA, 0x55, 0x05, 0x01, 0x22, 0x33, 0x44] =
     Inr ([[0x01, 0x01, 0x22]], [0xAA, 0x55, 0x05, 0x01, 0x22, 0x33, 0x44])"
  using extract_frames_one_and_a_half [of "[0x01, 0x01]" False]
    extract_frames_one_and_a_half [of "[0x01, 0x01, 0x22]" False]
    extract_frames_one_and_a_half [of "[0x05, 0x01, 0x22, 0x33, 0x44]" True]
  by (simp add: UART_PREAMBLE_def)

text \<open>
  Claim C9. Framing round trip: for every frame LENGTH, OPCODE, PAYLOAD whose LENGTH
  byte is the payload's byte count, the send path (\<^verbatim>\<open>write_uart_frame\<close> with
  \<open>send_raw = False\<close>) enqueues preamble, frame and the two little-endian checksum bytes
  of the frame, and \<^verbatim>\<open>extract_frames\<close> on exactly these bytes returns the single frame
  and an empty leftover.
\<close>

theorem framing_round_trip:
  assumes "length payload = unat l"
  shows "write_uart_frame (l # opcode # payload) False out_queue =
           Inr (out_queue @
                [UART_PREAMBLE @ (l # opcode # payload) @
                 le_digits 2 (calculate_crc (l # opcode # payload))]) \<and>
         extract_frames mutable
           (UART_PREAMBLE @ (l # opcode # payload) @
            le_digits 2 (calculate_crc (l # opcode # payload))) =
           Inr ([l # opcode # payload], [])"
proof -
  let ?f = "l # opcode # payload"
  let ?c = "calculate_crc ?f"
  have w: "write_uart_frame ?f False out_queue =
      Inr (out_queue @ [UART_PREAMBLE @ ?f @ le_digits 2 ?c])"
    by (simp add: write_uart_frame_def calculate_crc_bytes_eq)
  have "extract_frames mutable
      (UART_PREAMBLE @ l # opcode # payload @
        [word_of_int (?c mod 256), word_of_int (?c div 256 mod 256)] @ []) =
      Inr ([?f], [])"
    using from_bytes_crc_digits [of ?f]
    by (subst extract_frames_candidate [OF assms]) (simp add: le_digits_2)
  then have "extract_frames mutable (UART_PREAMBLE @ ?f @ le_digits 2 ?c) = Inr ([?f], [])"
    by (simp add: le_digits_2)
  with w show ?thesis by simp
qed

text \<open>The round trip at the frame 01 01 22, whose checksum bytes are DB 88.\<close>

theorem framing_round_trip_witness:
  "length [0x22 :: byte] = unat (0x01 :: byte) \<and>
   write_uart_frame [0x01, 0x01, 0x22] False [] = Inr [[0xAA, 0x55, 0x01, 0x01, 0x22, 0xDB, 0x88]] \<and>
   extract_frames True [0xAA, 0x55, 0x01, 0x01, 0x22, 0xDB, 0x88] = Inr ([[0x01, 0x01, 0x22]], [])"
  using framing_round_trip [of "[0x22]" "0x01" "0x01" "[]" True]
  by (simp add: crc_example le_digits_2 UART_PREAMBLE_def)

section \<open>Framing claims\<close>

text \<open>
  C1 as stated fails: the frame AA 55 01 01 22 DB 88 (the test vector of the repository) is
  accepted although DB 88 is not the checksum of OPCODE and PAYLOAD (01 22) alone, and the
  same frame carrying the checksum of OPCODE and PAYLOAD alone (C2 06) is rejected.
\<close>

theorem crc_range_includes_length_counterexample:
  "extract_frames True [0xAA, 0x55, 0x01, 0x01, 0x22, 0xDB, 0x88] = Inr ([[0x01, 0x01, 0x22]], []) \<and>
   from_bytes [0xDB, 0x88] \<noteq> calculate_crc [0x01, 0x22] \<and>
   from_bytes [0xC2, 0x06] = calculate_crc [0x01, 0x22] \<and>
   extract_frames True [0xAA, 0x55, 0x01, 0x01, 0x22, 0xC2, 0x06] = Inr ([], [])"
proof -
  have a: "extract_frames True (UART_PREAMBLE @ 0x01 # 0x01 # [0x22] @ [0xDB, 0x88] @ []) =
      Inr ([[0x01, 0x01, 0x22]], [])"
    by (subst extract_frames_candidate) (simp_all add: crc_example)
  have b: "extract_frames True (UART_PREAMBLE @ 0x01 # 0x01 # [0x22] @ [0xC2, 0x06] @ []) =
      Inr ([], [])"
    by (subst extract_frames_candidate) (simp_all add: crc_example)
  from a b show ?thesis by (simp add: UART_PREAMBLE_def crc_example_no_length)
qed

text \<open>
  Claim C1, amended. The checksum covers LENGTH, OPCODE and PAYLOAD (the preamble
  excluded): \<^verbatim>\<open>extract_frames\<close> accepts a complete candidate frame exactly when its
  trailing little-endian CRC16 equals \<^verbatim>\<open>calculate_crc\<close> of the LENGTH, OPCODE and PAYLOAD
  bytes, and the send path appends the little-endian checksum of the whole frame it is
  given (which starts with the LENGTH byte).
\<close>

theorem crc_range_includes_length:
  assumes "length payload = unat l"
  shows "extract_frames mutable (UART_PREAMBLE @ l # opcode # payload @ [c1, c2]) =
           (if from_bytes [c1, c2] = calculate_crc (l # opcode # payload)
            then Inr ([l # opcode # payload], [])
            else Inr ([], [])) \<and>
         write_uart_frame uart_frame False out_queue =
           Inr (out_queue @ [UART_PREAMBLE @ uart_frame @ le_digits 2 (calculate_crc uart_frame)]) \<and>
         from_bytes (le_digits 2 (calculate_crc uart_frame)) = calculate_crc uart_frame"
proof -
  have "extract_frames mutable (UART_PREAMBLE @ l # opcode # payload @ [c1, c2] @ []) =
           (if from_bytes [c1, c2] = calculate_crc (l # opcode # payload)
            then Inr ([l # opcode # payload], [])
            else Inr ([], []))"
    by (subst extract_frames_candidate [OF assms]) auto
  then show ?thesis
    by (simp add: write_uart_frame_def calculate_crc_bytes_eq from_bytes_crc_digits)
qed

text \<open>The amended C1 at the frame 01 01 22 with trailer DB 88.\<close>

theorem crc_range_includes_length_witness:
  "length [0x22 :: byte] = unat (0x01 :: byte) \<and>
   extract_frames False [0xAA, 0x55, 0x01, 0x01, 0x22, 0xDB, 0x88] = Inr ([[0x01, 0x01, 0x22]], []) \<and>
   write_uart_frame [0x01, 0x01, 0x22] False [] =
     Inr [[0xAA, 0x55, 0x01, 0x01, 0x22, 0xDB, 0x88]]"
  using crc_range_includes_length [of "[0x22]" "0x01" False "0x01" "0xDB" "0x88" "[0x01, 0x01, 0x22]" "[]"]
  by (simp add: crc_example le_digits_2 UART_PREAMBLE_def)

text \<open>
  Claim C2 (a corrupt candidate is dropped and the same call returns the valid frame that
  follows it) fails on the code. At the corrupt candidate AA 55 01 01 22 DB 89 followed by
  the valid frame AA 55 01 01 22 DB 88, the call returns no frame; the valid frame is left
  in the remaining data. The branch taken on a checksum mismatch returns without the
  recursive call on the remaining data that the branch taken on a match makes.
\<close>

theorem corrupt_frame_hides_valid_frame:
  "extract_frames True
     ([0xAA, 0x55, 0x01, 0x01, 0x22, 0xDB, 0x89] @ [0xAA, 0x55, 0x01, 0x01, 0x22, 0xDB, 0x88]) =
     Inr ([], [0xAA, 0x55, 0x01, 0x01, 0x22, 0xDB, 0x88])"
proof -
  have "extract_frames True (UART_PREAMBLE @ 0x01 # 0x01 # [0x22] @ [0xDB, 0x89] @
           [0xAA, 0x55, 0x01, 0x01, 0x22, 0xDB, 0x88]) =
      Inr ([], [0xAA, 0x55, 0x01, 0x01, 0x22, 0xDB, 0x88])"
    by (subst extract_frames_candidate) (simp_all add: crc_example)
  then show ?thesis by (simp add: UART_PREAMBLE_def)
qed

text \<open>
  The same on every buffer made of a complete candidate frame whose trailing CRC does not
  match, followed by a complete valid frame: the call on the buffer returns no frame and the
  valid frame as remaining data; only a further call, on that remaining data, returns it.
\<close>

theorem corrupt_frame_dropped:
  assumes "length payload = unat l"
    and "from_bytes [c1, c2] \<noteq> calculate_crc (l # opcode # payload)"
    and "length payload' = unat l'"
    and "good = UART_PREAMBLE @ (l' # opcode' # payload') @
                  le_digits 2 (calculate_crc (l' # opcode' # payload'))"
  shows "extract_frames mutable (UART_PREAMBLE @ l # opcode # payload @ [c1, c2] @ good) =
           Inr ([], good) \<and>
         extract_frames mutable good = Inr ([l' # opcode' # payload'], [])"
proof -
  have a: "extract_frames mutable (UART_PREAMBLE @ l # opcode # payload @ [c1, c2] @ good) =
           Inr ([], good)"
    using assms(2) by (subst extract_frames_candidate [OF assms(1)]) auto
  let ?c = "calculate_crc (l' # opcode' # payload')"
  have "extract_frames mutable
      (UART_PREAMBLE @ l' # opcode' # payload' @
        [word_of_int (?c mod 256), word_of_int (?c div 256 mod 256)] @ []) =
      Inr ([l' # opcode' # payload'], [])"
    using from_bytes_crc_digits [of "l' # opcode' # payload'"]
    by (subst extract_frames_candidate [OF assms(3)]) (simp add: le_digits_2)
  then have b: "extract_frames mutable good = Inr ([l' # opcode' # payload'], [])"
    by (simp add: le_digits_2 assms(4))
  from a b show ?thesis by simp
qed

text \<open>At the candidate 01 01 22 with trailer DB 89 and the frame 01 01 22.\<close>

theorem corrupt_frame_dropped_witness:
  "length [0x22 :: byte] = unat (0x01 :: byte) \<and>
   from_bytes [0xDB, 0x89] \<noteq> calculate_crc [0x01, 0x01, 0x22] \<and>
   [0xAA, 0x55, 0x01, 0x01, 0x22, 0xDB, 0x88] =
      UART_PREAMBLE @ [0x01, 0x01, 0x22] @ le_digits 2 (calculate_crc [0x01, 0x01, 0x22]) \<and>
   extract_frames True
     (UART_PREAMBLE @ [0x01, 0x01, 0x22, 0xDB, 0x89] @ [0xAA, 0x55, 0x01, 0x01, 0x22, 0xDB, 0x88]) =
     Inr ([], [0xAA, 0x55, 0x01, 0x01, 0x22, 0xDB, 0x88]) \<and>
   extract_frames True [0xAA, 0x55, 0x01, 0x01, 0x22, 0xDB, 0x88] = Inr ([[0x01, 0x01, 0x22]], [])"
proof -
  have h1: "length [0x22 :: byte] = unat (0x01 :: byte)" by simp
  have h2: "from_bytes [0xDB, 0x89] \<noteq> calculate_crc [0x01, 0x01, 0x22]"
    by (simp add: crc_example)
  have h4: "[0xAA, 0x55, 0x01, 0x01, 0x22, 0xDB, 0x88] =
      UART_PREAMBLE @ [0x01, 0x01, 0x22] @ le_digits 2 (calculate_crc [0x01, 0x01, 0x22])"
    by (simp add: crc_example le_digits_2 UART_PREAMBLE_def)
  from corrupt_frame_dropped [OF h1 h2 h1 h4, of True] h1 h2 h4 show ?thesis by simp
qed

section \<open>Facts about the message codecs\<close>

lemma stream_read_nat [simp]:
  "0 \<le> n \<Longrightarrow> stream_read n s = (take (nat n) s, drop (nat n) s)"
  by (simp add: stream_read_def)

lemma stream_read_neg: "n < 0 \<Longrightarrow> stream_read n s = (s, [])"
  by (simp add: stream_read_def)

lemma deserialize_common_part_cons:
  "deserialize_common_part self (l # c # rest) =
     (if uint c \<noteq> msg_type self then Inl InvalidOpcode else Inr (uint l, rest))"
  by (simp add: deserialize_common_part_def)

lemma deserialize_no_payload_cons:
  "deserialize_no_payload self (l # c # rest) =
     (if uint c \<noteq> msg_type self then Inl InvalidOpcode
      else if l \<noteq> 0 then Inl InvalidLen else Inr self)"
  by (simp add: deserialize_no_payload_def deserialize_common_part_cons uint_0_iff)

text \<open>
  Claim C10. For every input buffer shorter than 2 bytes \<^verbatim>\<open>deserialize_message\<close> raises
  InvalidLen (not InvalidOpcode): the opcode at index 1 cannot be read.
\<close>

theorem short_buffer_invalid_len:
  assumes "length data < 2"
  shows "deserialize_message data = Inl InvalidLen"
  using assms by (simp add: deserialize_message_def)

lemma UART_CLASSES_type:
  "map_of UART_CLASSES k = Some msg \<Longrightarrow> msg_type msg = k"
  by (auto simp: UART_CLASSES_def split: if_splits)

lemma zero_payload_lookup:
  "self \<in> set zero_payload_messages \<Longrightarrow> map_of UART_CLASSES (msg_type self) = Some self"
  unfolding zero_payload_messages_def UART_CLASSES_def
  by (elim disjE | simp only: set_simps insert_iff empty_iff)+ simp_all

section \<open>Message codec claims\<close>

text \<open>
  Claim C5. For every zero-payload message variant, decoding an input whose opcode byte
  matches the variant succeeds (with the message itself) exactly when the LENGTH byte is 0
  and raises InvalidLen for every nonzero LENGTH, both in the decoder of the class and
  through \<^verbatim>\<open>deserialize_message\<close>.
\<close>

theorem zero_payload_decode:
  assumes "self \<in> set zero_payload_messages" and "uint c = msg_type self"
  shows "deserialize self (l # c # rest) = (if l = 0 then Inr self else Inl InvalidLen) \<and>
         deserialize_message (l # c # rest) = (if l = 0 then Inr self else Inl InvalidLen)"
proof -
  have d: "deserialize self (l # c # rest) = deserialize_no_payload self (l # c # rest)"
    using assms(1) by (auto simp: zero_payload_messages_def)
  have r: "map_of UART_CLASSES (uint c) = Some self"
    using zero_payload_lookup [OF assms(1)] assms(2) by simp
  have m: "deserialize_message (l # c # rest) = deserialize self (l # c # rest)"
    by (simp add: deserialize_message_def r)
  show ?thesis
    unfolding m unfolding d using assms(2) by (simp add: deserialize_no_payload_cons)
qed

text \<open>
  C5 at StartNodeRequest: the bytes 02 09 AA BB raise InvalidLen, the bytes 00 09 decode.
\<close>

theorem zero_payload_decode_witness:
  "StartNodeRequestMessage \<in> set zero_payload_messages \<and>
   uint (0x09 :: byte) = msg_type StartNodeRequestMessage \<and>
   deserialize StartNodeRequestMessage [0x02, 0x09, 0xAA, 0xBB] = Inl InvalidLen \<and>
   deserialize_message [0x02, 0x09, 0xAA, 0xBB] = Inl InvalidLen \<and>
   deserialize_message [0x00, 0x09] = Inr StartNodeRequestMessage"
proof -
  have h1: "StartNodeRequestMessage \<in> set zero_payload_messages"
    by (simp add: zero_payload_messages_def)
  have h2: "uint (0x09 :: byte) = msg_type StartNodeRequestMessage" by simp
  from zero_payload_decode [OF h1 h2, of "0x02" "[0xAA, 0xBB]"]
       zero_payload_decode [OF h1 h2, of "0x00" "[]"] h1 h2
  show ?thesis by simp
qed

text \<open>C10 at the empty buffer and at a single byte.\<close>

theorem short_buffer_invalid_len_witness:
  "length ([] :: bytes) < 2 \<and> length [0x01 :: byte] < 2 \<and>
   deserialize_message [] = Inl InvalidLen \<and> deserialize_message [0x01] = Inl InvalidLen"
  using short_buffer_invalid_len [of "[]"] short_buffer_invalid_len [of "[0x01]"] by simp

lemma from_bytes_nonneg [simp]: "0 \<le> from_bytes bs"
  by (induction bs) simp_all

lemma dfu_write_data_event_decode:
  "deserialize (DfuWriteDataEventMessage l0 d0) (l # 0x86 # rest) =
     (if uint l - 1 \<noteq> from_bytes (take 1 rest) then Inl InvalidLen
      else if uint l - 1 \<noteq> int (length (take (nat (uint l - 1)) (drop 1 rest)))
           then Inl InvalidLen
           else Inr (DfuWriteDataEventMessage (uint l - 1)
                       (take (nat (uint l - 1)) (drop 1 rest))))"
proof (cases "uint l - 1 = from_bytes (take 1 rest)")
  case False
  then show ?thesis by (simp add: deserialize_common_part_cons Let_def)
next
  case True
  have nn: "0 \<le> uint l - 1" unfolding True by simp
  show ?thesis
    using True [symmetric] nn by (simp add: deserialize_common_part_cons Let_def)
qed

lemma dfu_init_request_decode:
  "deserialize (DfuInitRequestMessage f0 h0 l0 a0) (l # 0x80 # rest) =
     (if uint l - 37 \<noteq> from_bytes (take 1 (drop 36 rest)) then Inl InvalidLen
      else if uint l - 37 \<noteq> int (length (take (nat (uint l - 37)) (drop 37 rest)))
           then Inl InvalidLen
           else Inr (DfuInitRequestMessage (from_bytes (take 4 rest)) (take 32 (drop 4 rest))
                       (uint l - 37) (take (nat (uint l - 37)) (drop 37 rest))))"
proof (cases "uint l - 37 = from_bytes (take 1 (drop 36 rest))")
  case False
  then show ?thesis by (simp add: deserialize_common_part_cons Let_def)
next
  case True
  have nn: "0 \<le> uint l - 37" unfolding True by simp
  show ?thesis
    using True [symmetric] nn by (simp add: deserialize_common_part_cons Let_def)
qed

lemma deserialize_message_dfu:
  "deserialize_message (l # 0x80 # rest) =
     deserialize (DfuInitRequestMessage 0 (replicate 32 0) 0 []) (l # 0x80 # rest)"
  "deserialize_message (l # 0x86 # rest) =
     deserialize (DfuWriteDataEventMessage 0 []) (l # 0x86 # rest)"
  by (simp_all add: deserialize_message_def UART_CLASSES_def)

lemma length_take_int:
  "0 \<le> k \<Longrightarrow> nat k \<le> length xs \<Longrightarrow> int (length (take (nat k) xs)) = k"
  by simp

text \<open>
  Claim C7. For DfuInitRequest (fixed fields of 4 + 32 + 1 = 37 bytes) and DfuWriteDataEvent
  (fixed field of 1 byte), decoding raises InvalidLen whenever the frame LENGTH minus the
  size of the fixed fields differs from the embedded length sub-field; when they are equal
  and that many bytes are available, decoding succeeds with these bytes as the data. This
  holds for the decoder of the class on any instance and through \<^verbatim>\<open>deserialize_message\<close>.
\<close>

theorem dfu_embedded_length_check:
  "(uint l - 37 \<noteq> from_bytes (take 1 (drop 36 rest)) \<longrightarrow>
      deserialize (DfuInitRequestMessage f0 h0 l0 a0) (l # 0x80 # rest) = Inl InvalidLen \<and>
      deserialize_message (l # 0x80 # rest) = Inl InvalidLen) \<and>
   (uint l - 37 = from_bytes (take 1 (drop 36 rest)) \<and>
    nat (uint l - 37) \<le> length (drop 37 rest) \<longrightarrow>
      deserialize (DfuInitRequestMessage f0 h0 l0 a0) (l # 0x80 # rest) =
        Inr (DfuInitRequestMessage (from_bytes (take 4 rest)) (take 32 (drop 4 rest))
               (uint l - 37) (take (nat (uint l - 37)) (drop 37 rest))) \<and>
      deserialize_message (l # 0x80 # rest) =
        Inr (DfuInitRequestMessage (from_bytes (take 4 rest)) (take 32 (drop 4 rest))
               (uint l - 37) (take (nat (uint l - 37)) (drop 37 rest)))) \<and>
   (uint l - 1 \<noteq> from_bytes (take 1 rest) \<longrightarrow>
      deserialize (DfuWriteDataEventMessage n0 d0) (l # 0x86 # rest) = Inl InvalidLen \<and>
      deserialize_message (l # 0x86 # rest) = Inl InvalidLen) \<and>
   (uint l - 1 = from_bytes (take 1 rest) \<and> nat (uint l - 1) \<le> length (drop 1 rest) \<longrightarrow>
      deserialize (DfuWriteDataEventMessage n0 d0) (l # 0x86 # rest) =
        Inr (DfuWriteDataEventMessage (uint l - 1) (take (nat (uint l - 1)) (drop 1 rest))) \<and>
      deserialize_message (l # 0x86 # rest) =
        Inr (DfuWriteDataEventMessage (uint l - 1) (take (nat (uint l - 1)) (drop 1 rest))))"
proof (intro conjI impI)
  assume "uint l - 37 \<noteq> from_bytes (take 1 (drop 36 rest))"
  then show "deserialize (DfuInitRequestMessage f0 h0 l0 a0) (l # 0x80 # rest) = Inl InvalidLen"
    and "deserialize_message (l # 0x80 # rest) = Inl InvalidLen"
    by (simp_all add: deserialize_message_dfu dfu_init_request_decode del: deserialize.simps)
next
  assume a: "uint l - 37 = from_bytes (take 1 (drop 36 rest)) \<and>
    nat (uint l - 37) \<le> length (drop 37 rest)"
  then have nn: "0 \<le> uint l - 37" by simp
  have "int (length (take (nat (uint l - 37)) (drop 37 rest))) = uint l - 37"
    by (rule length_take_int [OF nn a [THEN conjunct2]])
  with a show "deserialize (DfuInitRequestMessage f0 h0 l0 a0) (l # 0x80 # rest) =
        Inr (DfuInitRequestMessage (from_bytes (take 4 rest)) (take 32 (drop 4 rest))
               (uint l - 37) (take (nat (uint l - 37)) (drop 37 rest)))"
    and "deserialize_message (l # 0x80 # rest) =
        Inr (DfuInitRequestMessage (from_bytes (take 4 rest)) (take 32 (drop 4 rest))
               (uint l - 37) (take (nat (uint l - 37)) (drop 37 rest)))"
    by (simp_all add: deserialize_message_dfu dfu_init_request_decode del: deserialize.simps)
next
  assume "uint l - 1 \<noteq> from_bytes (take 1 rest)"
  then show "deserialize (DfuWriteDataEventMessage n0 d0) (l # 0x86 # rest) = Inl InvalidLen"
    and "deserialize_message (l # 0x86 # rest) = Inl InvalidLen"
    by (simp_all add: deserialize_message_dfu dfu_write_data_event_decode del: deserialize.simps)
next
  assume a: "uint l - 1 = from_bytes (take 1 rest) \<and> nat (uint l - 1) \<le> length (drop 1 rest)"
  then have nn: "0 \<le> uint l - 1" by simp
  have "int (length (take (nat (uint l - 1)) (drop 1 rest))) = uint l - 1"
    by (rule length_take_int [OF nn a [THEN conjunct2]])
  with a show "deserialize (DfuWriteDataEventMessage n0 d0) (l # 0x86 # rest) =
        Inr (DfuWriteDataEventMessage (uint l - 1) (take (nat (uint l - 1)) (drop 1 rest)))"
    and "deserialize_message (l # 0x86 # rest) =
        Inr (DfuWriteDataEventMessage (uint l - 1) (take (nat (uint l - 1)) (drop 1 rest)))"
    by (simp_all add: deserialize_message_dfu dfu_write_data_event_decode del: deserialize.simps)
qed

text \<open>
  C7 at a DfuWriteDataEvent and a DfuInitRequest carrying two data bytes, with the right and
  with a wrong embedded length.
\<close>

theorem dfu_embedded_length_check_witness:
  "deserialize_message [0x03, 0x86, 0x02, 0xAA, 0xBB] =
     Inr (DfuWriteDataEventMessage 2 [0xAA, 0xBB]) \<and>
   deserialize_message [0x03, 0x86, 0x05, 0xAA, 0xBB] = Inl InvalidLen \<and>
   deserialize_message (0x27 # 0x80 # [1, 0, 0, 0] @ replicate 32 0x11 @ [0x02, 0xAA, 0xBB]) =
     Inr (DfuInitRequestMessage 1 (replicate 32 0x11) 2 [0xAA, 0xBB]) \<and>
   deserialize_message (0x27 # 0x80 # [1, 0, 0, 0] @ replicate 32 0x11 @ [0x03, 0xAA, 0xBB]) =
     Inl InvalidLen"
proof -
  have r: "replicate 32 (0x11 :: byte) = [0x11, 0x11, 0x11, 0x11, 0x11, 0x11, 0x11, 0x11,
      0x11, 0x11, 0x11, 0x11, 0x11, 0x11, 0x11, 0x11, 0x11, 0x11, 0x11, 0x11, 0x11, 0x11,
      0x11, 0x11, 0x11, 0x11, 0x11, 0x11, 0x11, 0x11, 0x11, 0x11]"
    by (simp add: numeral_eq_Suc)
  show ?thesis
    using dfu_embedded_length_check [of "0x03" "[0x02, 0xAA, 0xBB]" 0 "[]" 0 "[]" 0 "[]"]
      dfu_embedded_length_check [of "0x03" "[0x05, 0xAA, 0xBB]" 0 "[]" 0 "[]" 0 "[]"]
      dfu_embedded_length_check [of "0x27"
        "[1, 0, 0, 0] @ replicate 32 0x11 @ [0x02, 0xAA, 0xBB]" 0 "[]" 0 "[]" 0 "[]"]
      dfu_embedded_length_check [of "0x27"
        "[1, 0, 0, 0] @ replicate 32 0x11 @ [0x03, 0xAA, 0xBB]" 0 "[]" 0 "[]" 0 "[]"]
    unfolding r by (simp del: deserialize.simps)
qed

text \<open>
  C8 as stated fails: the identifier 0x9999 is no member of \<^verbatim>\<open>ModelID\<close> and decoding raises
  ValueError instead of consuming two bytes with an empty configuration; and for the
  sensor-setup identifier followed by two bytes only, these two bytes become the
  configuration, not exactly 10.
\<close>

theorem model_desc_decode_counterexample:
  "ModelDesc_deserialize ModelDesc_new [0x99, 0x99, 0x01, 0x02] = Inl ValueError \<and>
   ModelDesc_deserialize ModelDesc_new [0x01, 0x11, 0xAA, 0xBB] =
     Inr (\<lparr>model_id = Some 0x1101, config = [0xAA, 0xBB]\<rparr>, [])"
  by (simp add: ModelDesc_deserialize_def ModelDesc_new_def enum_from_bytes_def
      ModelID_values_def)

text \<open>
  Claim C8, amended. Decoding a ModelDescriptor reads a 16-bit little-endian identifier
  (the first two bytes of the stream). An identifier that is no member of \<^verbatim>\<open>ModelID\<close>
  raises ValueError. Otherwise the next 10 bytes (all that is left, when the stream ends
  earlier) are consumed as the configuration if and only if the identifier is
  SensorSetupServerID (0x1101); for every other member the configuration stays empty and
  only the identifier is consumed. On a stream of at least 12 bytes the configuration has
  exactly 10 bytes and 12 bytes are consumed; on one of at least 2 bytes a descriptor
  without configuration consumes exactly 2.
\<close>

theorem model_desc_decode:
  "ModelDesc_deserialize ModelDesc_new stream =
     (if from_bytes (take 2 stream) \<notin> set ModelID_values then Inl ValueError
      else if from_bytes (take 2 stream) = SensorSetupServerID
      then Inr (\<lparr>model_id = Some SensorSetupServerID, config = take 10 (drop 2 stream)\<rparr>,
                drop 12 stream)
      else Inr (\<lparr>model_id = Some (from_bytes (take 2 stream)), config = []\<rparr>,
                drop 2 stream)) \<and>
   (12 \<le> length stream \<longrightarrow>
      length (take 10 (drop 2 stream)) = 10 \<and>
      length stream - length (drop 12 stream) = 12) \<and>
   (2 \<le> length stream \<longrightarrow> length stream - length (drop 2 stream) = 2)"
  by (simp add: ModelDesc_deserialize_def ModelDesc_new_def enum_from_bytes_def Let_def)

text \<open>
  The amended C8 on the payload of the repository's test with a configuration: the
  sensor-setup descriptor with its 10 bytes, then the descriptor 0x1311.
\<close>

theorem model_desc_decode_witness:
  "ModelDesc_deserialize ModelDesc_new
     [0x01, 0x11, 0x00, 0x00, 0x11, 0x22, 0x22, 0x33, 0x33, 0x44, 0x44, 0x55, 0x11, 0x13] =
     Inr (\<lparr>model_id = Some 0x1101,
           config = [0x00, 0x00, 0x11, 0x22, 0x22, 0x33, 0x33, 0x44, 0x44, 0x55]\<rparr>,
          [0x11, 0x13]) \<and>
   ModelDesc_deserialize ModelDesc_new [0x11, 0x13] =
     Inr (\<lparr>model_id = Some 0x1311, config = []\<rparr>, [])"
  using model_desc_decode [of
      "[0x01, 0x11, 0x00, 0x00, 0x11, 0x22, 0x22, 0x33, 0x33, 0x44, 0x44, 0x55, 0x11, 0x13]"]
    model_desc_decode [of "[0x11, 0x13]"]
  by (simp add: ModelID_values_def)

lemma and_then_common_part_opcode:
  "(and_then (deserialize_common_part self (l # c # rest)) f = Inl InvalidOpcode) =
     (uint c \<noteq> msg_type self \<or> f (uint l, rest) = Inl InvalidOpcode)"
  by (simp add: deserialize_common_part_cons)

lemma enum_from_bytes_not_opcode [simp]:
  "enum_from_bytes members b \<noteq> Inl InvalidOpcode"
  by (simp add: enum_from_bytes_def Let_def)

lemma and_then_enum_opcode [simp]:
  "(and_then (enum_from_bytes members b) f = Inl InvalidOpcode) =
     (\<exists>v. enum_from_bytes members b = Inr v \<and> f v = Inl InvalidOpcode)"
  by (simp add: enum_from_bytes_def Let_def)

lemma read_model_ids_not_opcode [simp]:
  "read_model_ids len stream model_ids \<noteq> Inl InvalidOpcode"
proof (induction len stream model_ids rule: read_model_ids.induct)
  case (1 len stream model_ids)
  show ?case
  proof (cases "2 \<le> len")
    case False
    then show ?thesis by (subst read_model_ids.simps) simp
  next
    case True
    obtain b stream' where r: "stream_read 2 stream = (b, stream')"
      by (cases "stream_read 2 stream")
    show ?thesis
    proof (cases "enum_from_bytes ModelID_values b")
      case (Inl e)
      then have "e \<noteq> InvalidOpcode" using enum_from_bytes_not_opcode [of ModelID_values b] by auto
      with True r Inl show ?thesis
        using stream_read_nat [of 2 stream]
        by (subst read_model_ids.simps) (simp del: stream_read_nat)
    next
      case (Inr mid)
      from "1.IH" [OF True refl r [symmetric] Inr] True r Inr show ?thesis
        by (subst read_model_ids.simps) (simp del: stream_read_nat)
    qed
  qed
qed

lemma ModelDesc_deserialize_not_opcode [simp]:
  "ModelDesc_deserialize self stream \<noteq> Inl InvalidOpcode"
  by (simp add: ModelDesc_deserialize_def Let_def split_def)

lemma read_model_descs_not_opcode [simp]:
  "read_model_descs len stream model_descs \<noteq> Inl InvalidOpcode"
proof (induction len stream model_descs rule: read_model_descs.induct)
  case (1 len stream model_descs)
  show ?case
  proof (cases "2 \<le> len")
    case False
    then show ?thesis by (subst read_model_descs.simps) simp
  next
    case True
    show ?thesis
    proof (cases "ModelDesc_deserialize ModelDesc_new stream")
      case (Inl e)
      then have "e \<noteq> InvalidOpcode"
        using ModelDesc_deserialize_not_opcode [of ModelDesc_new stream] by auto
      with True Inl show ?thesis by (subst read_model_descs.simps) simp
    next
      case (Inr p)
      obtain model_desc stream' where p: "p = (model_desc, stream')" by (cases p)
      from "1.IH" [OF True Inr [unfolded p] refl] True Inr p show ?thesis
        by (subst read_model_descs.simps) simp
    qed
  qed
qed

lemma deserialize_no_payload_opcode:
  "(deserialize_no_payload self (l # c # rest) = Inl InvalidOpcode) = (uint c \<noteq> msg_type self)"
  by (simp add: deserialize_no_payload_cons)

lemma and_then_read_model_ids_opcode [simp]:
  "(and_then (read_model_ids len stream model_ids) f = Inl InvalidOpcode) =
     (\<exists>r. read_model_ids len stream model_ids = Inr r \<and> f r = Inl InvalidOpcode)"
  using read_model_ids_not_opcode [of len stream model_ids]
  by (cases "read_model_ids len stream model_ids") simp_all

lemma and_then_read_model_descs_opcode [simp]:
  "(and_then (read_model_descs len stream model_descs) f = Inl InvalidOpcode) =
     (\<exists>r. read_model_descs len stream model_descs = Inr r \<and> f r = Inl InvalidOpcode)"
  using read_model_descs_not_opcode [of len stream model_descs]
  by (cases "read_model_descs len stream model_descs") simp_all

lemma deserialize_model_ids_opcode:
  "(deserialize_model_ids self set_model_ids model_ids (l # c # rest) = Inl InvalidOpcode) =
     (uint c \<noteq> msg_type self)"
  by (auto simp: deserialize_model_ids_def and_then_common_part_opcode)

lemma deserialize_enum_field_opcode:
  "(deserialize_enum_field self members set_field (l # c # rest) = Inl InvalidOpcode) =
     (uint c \<noteq> msg_type self)"
  by (auto simp: deserialize_enum_field_def and_then_common_part_opcode Let_def split_def)

lemma deserialize_opcode:
  assumes "self \<noteq> GenericMessage"
  shows "(deserialize self (l # c # rest) = Inl InvalidOpcode) = (uint c \<noteq> msg_type self)"
  using assms
  by (cases self)
     (simp_all add: deserialize_no_payload_opcode deserialize_model_ids_opcode
        deserialize_enum_field_opcode and_then_common_part_opcode Let_def split_def
        del: msg_type.simps)

text \<open>
  The base class \<^verbatim>\<open>GenericMessage\<close> has no decoder: its \<^verbatim>\<open>deserialize\<close> is the
  unimplemented method (\<^verbatim>\<open>assert False\<close>) the message classes overload, and no frame is
  decoded by it.
\<close>

lemma generic_message_deserialize_stub:
  "uint (0x01 :: byte) \<noteq> msg_type GenericMessage \<and>
   deserialize GenericMessage [0x00, 0x01] = Inl AssertionError \<and>
   deserialize_message [0x00, 0xFF] = Inl AssertionError"
  by (simp add: deserialize_message_def UART_CLASSES_def)

text \<open>
  Claim C6. For every message decoder (the \<^verbatim>\<open>deserialize\<close> of every message class; the
  base class \<^verbatim>\<open>GenericMessage\<close> only has the unimplemented stub), on any instance, and every
  input of at least 2 bytes, decoding raises InvalidOpcode when the input's opcode byte
  differs from the opcode of the decoder's class, and never raises it when that byte
  matches. Likewise \<^verbatim>\<open>deserialize_message\<close> raises InvalidOpcode when the second byte of
  the buffer is not a registered opcode, and never when it is registered.
\<close>

theorem opcode_mismatch:
  "(self \<noteq> GenericMessage \<longrightarrow>
      (deserialize self (l # c # rest) = Inl InvalidOpcode) = (uint c \<noteq> msg_type self)) \<and>
   (map_of UART_CLASSES (uint c) = None \<longrightarrow>
      deserialize_message (l # c # rest) = Inl InvalidOpcode) \<and>
   (map_of UART_CLASSES (uint c) \<noteq> None \<longrightarrow>
      deserialize_message (l # c # rest) \<noteq> Inl InvalidOpcode)"
proof (intro conjI impI)
  assume "self \<noteq> GenericMessage"
  then show "(deserialize self (l # c # rest) = Inl InvalidOpcode) = (uint c \<noteq> msg_type self)"
    by (rule deserialize_opcode)
next
  assume "map_of UART_CLASSES (uint c) = None"
  then show "deserialize_message (l # c # rest) = Inl InvalidOpcode"
    by (simp add: deserialize_message_def)
next
  assume "map_of UART_CLASSES (uint c) \<noteq> None"
  then obtain msg where m: "map_of UART_CLASSES (uint c) = Some msg" by auto
  have t: "msg_type msg = uint c" by (rule UART_CLASSES_type [OF m])
  have d: "deserialize_message (l # c # rest) = deserialize msg (l # c # rest)"
    by (simp add: deserialize_message_def m)
  show "deserialize_message (l # c # rest) \<noteq> Inl InvalidOpcode"
  proof (cases "msg = GenericMessage")
    case True
    then show ?thesis unfolding d by simp
  next
    case False
    from deserialize_opcode [OF False, of l c rest] t show ?thesis unfolding d by simp
  qed
qed

text \<open>
  C6 at the ping decoder: the opcode byte AB raises InvalidOpcode, in the decoder and in the
  registry lookup; the opcode byte 01 does not.
\<close>

theorem opcode_mismatch_witness:
  "PingRequestMessage [] \<noteq> GenericMessage \<and>
   deserialize (PingRequestMessage []) [0x01, 0xAB, 0xAA] = Inl InvalidOpcode \<and>
   deserialize (PingRequestMessage []) [0x01, 0x01, 0xAA] \<noteq> Inl InvalidOpcode \<and>
   map_of UART_CLASSES (uint (0xAB :: byte)) = None \<and>
   deserialize_message [0x01, 0xAB, 0xAA] = Inl InvalidOpcode \<and>
   map_of UART_CLASSES (uint (0x01 :: byte)) \<noteq> None \<and>
   deserialize_message [0x01, 0x01, 0xAA] \<noteq> Inl InvalidOpcode"
proof -
  have n: "map_of UART_CLASSES (uint (0xAB :: byte)) = None"
    by (simp add: UART_CLASSES_def)
  have s: "map_of UART_CLASSES (uint (0x01 :: byte)) \<noteq> None"
    by (simp add: UART_CLASSES_def)
  from opcode_mismatch [of "PingRequestMessage []" "0x01" "0xAB" "[0xAA]"]
    opcode_mismatch [of "PingRequestMessage []" "0x01" "0x01" "[0xAA]"] n s
  show ?thesis by (simp del: deserialize.simps)
qed

lemma to_bytes_in_range [simp]:
  "in_range x n \<Longrightarrow> to_bytes x n = Inr (le_digits n x)"
  by (simp add: in_range_def to_bytes_def)

lemma from_bytes_in_range [simp]:
  "in_range x n \<Longrightarrow> from_bytes (le_digits n x) = x"
  by (simp add: in_range_def from_bytes_le_digits)

lemma uint_byte_small: "0 \<le> x \<Longrightarrow> x < 256 \<Longrightarrow> uint (word_of_int x :: byte) = x"
  by (simp add: uint_word_of_int take_bit_eq_mod)

lemma le_digits_1: "le_digits 1 x = [word_of_int (x mod 256)]"
  by simp


lemma msg_type_range: "0 \<le> msg_type m \<and> msg_type m < 256"
  by (cases m) simp_all


lemma deserialize_message_registered:
  assumes "map_of UART_CLASSES (msg_type m) = Some m0"
  shows "deserialize_message (l # word_of_int (msg_type m) # rest) =
           deserialize m0 (l # word_of_int (msg_type m) # rest)"
  using assms msg_type_range [of m] by (simp add: deserialize_message_def uint_byte_small)

section \<open>Round trip of the message codecs\<close>


lemma in_range_1 [simp]: "in_range x (Suc 0) = (0 \<le> x \<and> x < 256)"
  by (simp add: in_range_def)

lemma uint_byte_small_simp [simp]:
  "0 \<le> x \<Longrightarrow> x < 256 \<Longrightarrow> uint (word_of_int x :: byte) = x"
  by (rule uint_byte_small)

lemma unat_word_of_nat_byte [simp]: "n \<le> 255 \<Longrightarrow> unat (word_of_nat n :: byte) = n"
  by (simp add: unat_of_nat)

lemma uint_word_of_nat_byte [simp]: "n \<le> 255 \<Longrightarrow> uint (word_of_nat n :: byte) = int n"
  by (simp add: uint_nat)

lemma uint_byte_mod [simp]: "uint (word_of_int (x mod 256) :: byte) = x mod 256"
  by (rule uint_byte_of_int)





































end
